theory Spec2Isabelle
  imports
    Complex_Main
    "HOL-Library.Multiset"
    "HOL-Library.Char_ord"
    "HOL-Library.List_Lexorder"
begin

section \<open>Persistence model (backend/models.py)\<close>

text \<open>
  The four ORM classes of \<^verbatim>\<open>models.py\<close> as records. Field names carry a one-letter
  prefix of their class, since several classes share a column name
  (\<^verbatim>\<open>user_id\<close>, \<^verbatim>\<open>player_id\<close>, \<^verbatim>\<open>game_id\<close>, \<^verbatim>\<open>created_at\<close>).
  A \<^verbatim>\<open>datetime\<close> is a point on a discrete clock; Python's unbounded \<^verbatim>\<open>int\<close> is \<open>int\<close>,
  and the store's 64-bit range is checked where the store checks it: when a row is
  written and when a sum is taken. The only nullable column is
  \<^verbatim>\<open>GameResult.player_id\<close>.
\<close>

type_synonym datetime = nat

record User =
  u_user_id :: string
  u_login_type :: string
  u_created_at :: datetime

record PlayerProfile =
  p_player_id :: string
  p_user_id :: string
  p_display_name :: string
  p_created_at :: datetime

record Game =
  g_game_id :: string
  g_user_id :: string
  g_played_at :: datetime

record GameResult =
  r_result_id :: string
  r_game_id :: string
  r_player_id :: "string option"
  r_score :: int
  r_turns_taken :: int
  r_farkles :: int
  r_won :: bool

text \<open>
  The persistent store: one list of rows per table, in insertion order.
\<close>

record store =
  users :: "User list"
  player_profiles :: "PlayerProfile list"
  games :: "Game list"
  game_results :: "GameResult list"

section \<open>Session (backend/database.py)\<close>

text \<open>
  \<^verbatim>\<open>SessionLocal = sessionmaker(autocommit=False, autoflush=False, bind=engine)\<close>:
  a session holds the committed store it reads from and the objects handed to
  \<^verbatim>\<open>db.add\<close> that no commit has written yet. Nothing is flushed before a commit.
\<close>

datatype orm_object =
    UserObj User
  | PlayerProfileObj PlayerProfile
  | GameObj Game
  | GameResultObj GameResult

record session =
  committed :: store
  pending :: "orm_object list"

text \<open>
  What a call can raise: \<^verbatim>\<open>HTTPException(status_code, detail)\<close> from the CRUD layer,
  Python's \<^verbatim>\<open>AttributeError\<close>, the store's \<^verbatim>\<open>IntegrityError\<close> for a violated primary key
  at commit, the driver's \<^verbatim>\<open>OverflowError\<close> for an integer that does not fit a 64-bit
  column, and the store's \<^verbatim>\<open>OperationalError\<close> for a sum that overflows.
\<close>

datatype error =
    HTTPException nat string
  | AttributeError
  | IntegrityError
  | OverflowError
  | OperationalError

text \<open>The range of the store's \<^verbatim>\<open>INTEGER\<close> (SQLite, the default engine): 64 bits, signed.\<close>

definition int64 :: "int \<Rightarrow> bool" where
  "int64 i \<longleftrightarrow> - (2 ^ 63) \<le> i \<and> i < 2 ^ 63"

definition SessionLocal :: "store \<Rightarrow> session" where
  "SessionLocal st = \<lparr>committed = st, pending = []\<rparr>"

text \<open>\<^verbatim>\<open>db.get(Model, pk)\<close>: the committed row with that primary key, or \<^verbatim>\<open>None\<close>.\<close>

definition db_get_User :: "session \<Rightarrow> string \<Rightarrow> User option" where
  "db_get_User db uid = find (\<lambda>u. u_user_id u = uid) (users (committed db))"

definition db_get_PlayerProfile :: "session \<Rightarrow> string \<Rightarrow> PlayerProfile option" where
  "db_get_PlayerProfile db pid =
     find (\<lambda>p. p_player_id p = pid) (player_profiles (committed db))"

definition db_add :: "session \<Rightarrow> orm_object \<Rightarrow> session" where
  "db_add db obj = db\<lparr>pending := pending db @ [obj]\<rparr>"

text \<open>The rows of each table among a list of pending objects, in the order they were added.\<close>

fun pending_users :: "orm_object list \<Rightarrow> User list" where
  "pending_users [] = []"
| "pending_users (UserObj u # os) = u # pending_users os"
| "pending_users (_ # os) = pending_users os"

fun pending_players :: "orm_object list \<Rightarrow> PlayerProfile list" where
  "pending_players [] = []"
| "pending_players (PlayerProfileObj p # os) = p # pending_players os"
| "pending_players (_ # os) = pending_players os"

fun pending_games :: "orm_object list \<Rightarrow> Game list" where
  "pending_games [] = []"
| "pending_games (GameObj g # os) = g # pending_games os"
| "pending_games (_ # os) = pending_games os"

fun pending_results :: "orm_object list \<Rightarrow> GameResult list" where
  "pending_results [] = []"
| "pending_results (GameResultObj r # os) = r # pending_results os"
| "pending_results (_ # os) = pending_results os"

definition flush :: "store \<Rightarrow> orm_object list \<Rightarrow> store" where
  "flush st os =
     \<lparr>users = users st @ pending_users os,
      player_profiles = player_profiles st @ pending_players os,
      games = games st @ pending_games os,
      game_results = game_results st @ pending_results os\<rparr>"

text \<open>
  Every table of \<^verbatim>\<open>models.py\<close> has a \<^verbatim>\<open>primary_key=True\<close> column: the store refuses an
  insert whose key is already in the table or occurs twice among the rows inserted.
  Foreign keys are not checked here (SQLite, the default engine, does not enforce them);
  the CRUD functions look the referenced rows up themselves.
\<close>

definition fresh_keys :: "'k list \<Rightarrow> 'k list \<Rightarrow> bool" where
  "fresh_keys old new \<longleftrightarrow> distinct new \<and> set new \<inter> set old = {}"

definition parent_keys_ok :: "store \<Rightarrow> orm_object list \<Rightarrow> bool" where
  "parent_keys_ok st os \<longleftrightarrow>
     fresh_keys (map u_user_id (users st)) (map u_user_id (pending_users os)) \<and>
     fresh_keys (map p_player_id (player_profiles st)) (map p_player_id (pending_players os)) \<and>
     fresh_keys (map g_game_id (games st)) (map g_game_id (pending_games os))"

definition result_keys_ok :: "store \<Rightarrow> orm_object list \<Rightarrow> bool" where
  "result_keys_ok st os \<longleftrightarrow>
     fresh_keys (map r_result_id (game_results st)) (map r_result_id (pending_results os))"

text \<open>
  The three \<^verbatim>\<open>Integer\<close> columns of a game result are bound as 64-bit integers; the
  driver refuses a Python \<^verbatim>\<open>int\<close> outside that range.
\<close>

definition integers_ok :: "orm_object list \<Rightarrow> bool" where
  "integers_ok os \<longleftrightarrow>
     list_all (\<lambda>r. int64 (r_score r) \<and> int64 (r_turns_taken r) \<and> int64 (r_farkles r))
       (pending_results os)"

text \<open>
  \<^verbatim>\<open>db.commit()\<close> writes the pending objects in one transaction, or raises and writes
  none of them. Users, profiles and games are inserted before the game results that
  refer to them. Which of the two errors is raised when the result rows have both an
  oversized integer and a repeated key depends on how the driver batches the rows; the
  integer is reported here.
\<close>

definition db_commit :: "session \<Rightarrow> error + session" where
  "db_commit db =
     (if \<not> parent_keys_ok (committed db) (pending db) then Inl IntegrityError
      else if \<not> integers_ok (pending db) then Inl OverflowError
      else if \<not> result_keys_ok (committed db) (pending db) then Inl IntegrityError
      else Inr \<lparr>committed = flush (committed db) (pending db), pending = []\<rparr>)"

text \<open>
  \<^verbatim>\<open>get_db\<close> opens a session for one request and closes it in its \<^verbatim>\<open>finally\<close> clause,
  whether the request returned or raised. Closing discards what was added and not
  committed; what remains is the committed store.
\<close>

definition db_close :: "session \<Rightarrow> store" where
  "db_close db = committed db"

definition get_db :: "store \<Rightarrow> (session \<Rightarrow> 'a \<times> session) \<Rightarrow> 'a \<times> store" where
  "get_db st f = (case f (SessionLocal st) of (r, db) \<Rightarrow> (r, db_close db))"

section \<open>Request entries (backend/schemas.py)\<close>

record GameResultEntry =
  e_player_id :: string
  e_score :: int
  e_turns :: int
  e_farkles :: int
  e_won :: bool

text \<open>
  \<^verbatim>\<open>create_game_result\<close> takes ``a list of objects/dicts with keys player_id, score,
  turns, farkles and won'': an element is either the Pydantic model that the endpoint
  passes, read by attribute, or a dict-like object carrying the same five keys, read by
  \<^verbatim>\<open>.get\<close>.
\<close>

datatype result_obj =
    PydanticModel GameResultEntry
  | DictLike GameResultEntry

text \<open>
  \<^verbatim>\<open>getattr(res, name, None) or res.get(name)\<close>. On a Pydantic model \<^verbatim>\<open>getattr\<close> yields
  the field; when that value is falsy (\<^verbatim>\<open>0\<close>, \<^verbatim>\<open>False\<close>, \<^verbatim>\<open>""\<close>) Python evaluates the right
  operand, and a Pydantic model has no attribute \<^verbatim>\<open>get\<close>. On a dict \<^verbatim>\<open>getattr\<close> yields
  \<^verbatim>\<open>None\<close> and \<^verbatim>\<open>.get\<close> returns the stored value.
\<close>

fun read_player_id :: "result_obj \<Rightarrow> error + string" where
  "read_player_id (PydanticModel m) =
     (if e_player_id m \<noteq> [] then Inr (e_player_id m) else Inl AttributeError)"
| "read_player_id (DictLike d) = Inr (e_player_id d)"

fun read_score :: "result_obj \<Rightarrow> error + int" where
  "read_score (PydanticModel m) =
     (if e_score m \<noteq> 0 then Inr (e_score m) else Inl AttributeError)"
| "read_score (DictLike d) = Inr (e_score d)"

fun read_turns :: "result_obj \<Rightarrow> error + int" where
  "read_turns (PydanticModel m) =
     (if e_turns m \<noteq> 0 then Inr (e_turns m) else Inl AttributeError)"
| "read_turns (DictLike d) = Inr (e_turns d)"

fun read_farkles :: "result_obj \<Rightarrow> error + int" where
  "read_farkles (PydanticModel m) =
     (if e_farkles m \<noteq> 0 then Inr (e_farkles m) else Inl AttributeError)"
| "read_farkles (DictLike d) = Inr (e_farkles d)"

fun read_won :: "result_obj \<Rightarrow> error + bool" where
  "read_won (PydanticModel m) =
     (if e_won m then Inr (e_won m) else Inl AttributeError)"
| "read_won (DictLike d) = Inr (e_won d)"

section \<open>Write operations (backend/crud.py)\<close>

text \<open>
  \<^verbatim>\<open>uuid.uuid4()\<close> and \<^verbatim>\<open>datetime.utcnow()\<close> are inputs of a call: \<open>uuid4 k\<close> is the string
  of the \<open>k\<close>-th identifier drawn during the call. \<^verbatim>\<open>create_game_result\<close> reads the clock
  once, for a missing \<^verbatim>\<open>played_at\<close>. In \<^verbatim>\<open>create_player\<close> the column default of
  \<^verbatim>\<open>created_at\<close> reads it at each insert: \<open>utcnow k\<close> is the \<open>k\<close>-th reading. Each function
  returns what it returns or raises, and the session as it stands at that point.
\<close>

definition create_player ::
  "session \<Rightarrow> string \<Rightarrow> string \<Rightarrow> (nat \<Rightarrow> string) \<Rightarrow> (nat \<Rightarrow> datetime)
     \<Rightarrow> (error + string) \<times> session"
where
  "create_player db user_id display_name uuid4 utcnow =
     (case (case db_get_User db user_id of
              Some user \<Rightarrow> Inr (user, db, 0)
            | None \<Rightarrow>
                (let user = \<lparr>u_user_id = user_id, u_login_type = ''anonymous'',
                             u_created_at = utcnow 0\<rparr>;
                     db1 = db_add db (UserObj user)
                 in case db_commit db1 of
                      Inl e \<Rightarrow> Inl (e, db1)
                    | Inr db2 \<Rightarrow> Inr (user, db2, 1))) of
        Inl (e, db') \<Rightarrow> (Inl e, db')
      | Inr (user, db', readings) \<Rightarrow>
          (let player_id = uuid4 0;
               profile = \<lparr>p_player_id = player_id, p_user_id = u_user_id user,
                          p_display_name = display_name, p_created_at = utcnow readings\<rparr>;
               db3 = db_add db' (PlayerProfileObj profile)
           in case db_commit db3 of
                Inl e \<Rightarrow> (Inl e, db3)
              | Inr db4 \<Rightarrow> (Inr player_id, db4)))"

text \<open>
  The loop of \<^verbatim>\<open>create_game_result\<close> over \<^verbatim>\<open>results\<close>; \<open>k\<close> counts the identifiers
  already drawn. The five fields are read in the source's order, then the player is
  looked up, then the row is added.
\<close>

fun add_results ::
  "session \<Rightarrow> string \<Rightarrow> (nat \<Rightarrow> string) \<Rightarrow> nat \<Rightarrow> result_obj list \<Rightarrow> (error + unit) \<times> session"
where
  "add_results db game_id uuid4 k [] = (Inr (), db)"
| "add_results db game_id uuid4 k (res # rest) =
     (case read_player_id res of Inl e \<Rightarrow> (Inl e, db) | Inr player_id \<Rightarrow>
      case read_score res of Inl e \<Rightarrow> (Inl e, db) | Inr score \<Rightarrow>
      case read_turns res of Inl e \<Rightarrow> (Inl e, db) | Inr turns \<Rightarrow>
      case read_farkles res of Inl e \<Rightarrow> (Inl e, db) | Inr farkles \<Rightarrow>
      case read_won res of Inl e \<Rightarrow> (Inl e, db) | Inr won \<Rightarrow>
      case db_get_PlayerProfile db player_id of
        None \<Rightarrow> (Inl (HTTPException 404 (''Player '' @ player_id @ '' not found'')), db)
      | Some player \<Rightarrow>
          add_results
            (db_add db (GameResultObj
               \<lparr>r_result_id = uuid4 k, r_game_id = game_id, r_player_id = Some player_id,
                r_score = score, r_turns_taken = turns, r_farkles = farkles, r_won = won\<rparr>))
            game_id uuid4 (Suc k) rest)"

definition create_game_result ::
  "session \<Rightarrow> string \<Rightarrow> datetime option \<Rightarrow> result_obj list \<Rightarrow> (nat \<Rightarrow> string) \<Rightarrow> datetime
     \<Rightarrow> (error + string) \<times> session"
where
  "create_game_result db user_id played_at results uuid4 utcnow =
     (case db_get_User db user_id of
        None \<Rightarrow> (Inl (HTTPException 404 ''User not found''), db)
      | Some user \<Rightarrow>
          (let game_id = uuid4 0;
               game = \<lparr>g_game_id = game_id, g_user_id = u_user_id user,
                       g_played_at = (case played_at of Some t \<Rightarrow> t | None \<Rightarrow> utcnow)\<rparr>;
               db1 = db_add db (GameObj game)
           in case add_results db1 game_id uuid4 1 results of
                (Inl e, db2) \<Rightarrow> (Inl e, db2)
              | (Inr _, db2) \<Rightarrow>
                  (case db_commit db2 of
                     Inl e \<Rightarrow> (Inl e, db2)
                   | Inr db3 \<Rightarrow> (Inr game_id, db3))))"

text \<open>The two write requests as the endpoints run them (backend/main.py).\<close>

definition create_player_endpoint ::
  "store \<Rightarrow> string \<Rightarrow> string \<Rightarrow> (nat \<Rightarrow> string) \<Rightarrow> (nat \<Rightarrow> datetime)
     \<Rightarrow> (error + string) \<times> store"
where
  "create_player_endpoint st user_id display_name uuid4 utcnow =
     get_db st (\<lambda>db. create_player db user_id display_name uuid4 utcnow)"

definition post_game_result_endpoint ::
  "store \<Rightarrow> string \<Rightarrow> datetime option \<Rightarrow> result_obj list \<Rightarrow> (nat \<Rightarrow> string) \<Rightarrow> datetime
     \<Rightarrow> (error + string) \<times> store"
where
  "post_game_result_endpoint st user_id played_at results uuid4 utcnow =
     get_db st (\<lambda>db. create_game_result db user_id played_at results uuid4 utcnow)"

section \<open>Aggregation (backend/crud.py)\<close>

text \<open>
  The SQL aggregate functions the queries use, as the default engine computes them.
  \<^verbatim>\<open>count\<close> of no rows is \<open>0\<close>; \<^verbatim>\<open>sum\<close>, \<^verbatim>\<open>avg\<close> and \<^verbatim>\<open>max\<close> of no rows are \<^verbatim>\<open>NULL\<close>, which
  the ORM hands to Python as \<^verbatim>\<open>None\<close>. \<^verbatim>\<open>sum\<close> adds the rows one by one as 64-bit integers
  and fails the query with \<^verbatim>\<open>integer overflow\<close> once a partial sum leaves that range. The
  average is a double in the code; it is taken over the reals here, and the rounding of
  the store's floating-point division is not modelled.
\<close>

definition cast_Integer :: "bool \<Rightarrow> int" where
  "cast_Integer b = (if b then 1 else 0)"

definition func_count :: "'a list \<Rightarrow> int" where
  "func_count xs = int (length xs)"

fun running_sum :: "int \<Rightarrow> int list \<Rightarrow> int option" where
  "running_sum acc [] = Some acc"
| "running_sum acc (x # xs) =
     (if int64 (acc + x) then running_sum (acc + x) xs else None)"

definition func_sum :: "int list \<Rightarrow> error + int option" where
  "func_sum xs =
     (if xs = [] then Inr None
      else case running_sum 0 xs of
             None \<Rightarrow> Inl OperationalError
           | Some s \<Rightarrow> Inr (Some s))"

definition func_avg :: "int list \<Rightarrow> real option" where
  "func_avg xs =
     (if xs = [] then None else Some (real_of_int (sum_list xs) / real (length xs)))"

definition func_max :: "int list \<Rightarrow> int option" where
  "func_max xs = (case xs of [] \<Rightarrow> None | x # ys \<Rightarrow> Some (fold max ys x))"

text \<open>Python's \<^verbatim>\<open>x or 0\<close> on a number that may be \<^verbatim>\<open>None\<close>.\<close>

definition or_0 :: "'a::zero option \<Rightarrow> 'a" where
  "or_0 x = (case x of None \<Rightarrow> 0 | Some v \<Rightarrow> if v \<noteq> 0 then v else 0)"

record PlayerStatsResponse =
  s_player_id :: string
  s_display_name :: string
  s_games_played :: int
  s_wins :: int
  s_total_points :: int
  s_avg_score :: real
  s_total_farkles :: int
  s_high_score :: int

record PlayerInfoEntry =
  i_player_id :: string
  i_display_name :: string
  i_wins :: int
  i_avg_score :: real
  i_total_points :: int

text \<open>
  \<^verbatim>\<open>.filter(GameResult.player_id == player_id)\<close>: a \<^verbatim>\<open>NULL\<close> reference matches no id. The
  rows of one player are scanned in the order they were inserted.
\<close>

definition player_results :: "store \<Rightarrow> string \<Rightarrow> GameResult list" where
  "player_results st pid = filter (\<lambda>r. r_player_id r = Some pid) (game_results st)"

definition get_player_stats ::
  "session \<Rightarrow> string \<Rightarrow> (error + PlayerStatsResponse) \<times> session"
where
  "get_player_stats db player_id =
     (case db_get_PlayerProfile db player_id of
        None \<Rightarrow> (Inl (HTTPException 404 ''Player not found''), db)
      | Some player \<Rightarrow>
          (let rows = player_results (committed db) player_id
           in case func_sum (map (\<lambda>r. cast_Integer (r_won r)) rows) of
                Inl e \<Rightarrow> (Inl e, db)
              | Inr stats_wins \<Rightarrow>
           case func_sum (map r_score rows) of
                Inl e \<Rightarrow> (Inl e, db)
              | Inr stats_total_points \<Rightarrow>
           case func_sum (map r_farkles rows) of
                Inl e \<Rightarrow> (Inl e, db)
              | Inr stats_total_farkles \<Rightarrow>
          (let stats_games_played = func_count rows;
               stats_avg_score = func_avg (map r_score rows);
               stats_high_score = func_max (map r_score rows);
               games_played = (if stats_games_played \<noteq> 0 then stats_games_played else 0);
               avg_score = (case stats_avg_score of Some a \<Rightarrow> a | None \<Rightarrow> 0)
           in (Inr \<lparr>s_player_id = p_player_id player,
                    s_display_name = p_display_name player,
                    s_games_played = games_played,
                    s_wins = or_0 stats_wins,
                    s_total_points = or_0 stats_total_points,
                    s_avg_score = avg_score,
                    s_total_farkles = or_0 stats_total_farkles,
                    s_high_score = or_0 stats_high_score\<rparr>, db))))"

text \<open>
  A row of the two grouped queries: the profile's id and name and the three aggregates
  over the game results joined to it. A sum that overflows fails the query.
\<close>

record agg_row =
  a_player_id :: string
  a_display_name :: string
  a_wins :: "int option"
  a_avg_score :: "real option"
  a_total_points :: "int option"

definition aggregate :: "store \<Rightarrow> PlayerProfile \<Rightarrow> error + agg_row" where
  "aggregate st p =
     (let rows = player_results st (p_player_id p)
      in case func_sum (map (\<lambda>r. cast_Integer (r_won r)) rows) of
           Inl e \<Rightarrow> Inl e
         | Inr wins \<Rightarrow>
      case func_sum (map r_score rows) of
           Inl e \<Rightarrow> Inl e
         | Inr total_points \<Rightarrow>
             Inr \<lparr>a_player_id = p_player_id p,
                  a_display_name = p_display_name p,
                  a_wins = wins,
                  a_avg_score = func_avg (map r_score rows),
                  a_total_points = total_points\<rparr>)"

text \<open>The rows of a query, or the error of the first group that fails.\<close>

fun collect :: "(error + 'a) list \<Rightarrow> error + 'a list" where
  "collect [] = Inr []"
| "collect (x # xs) =
     (case x of
        Inl e \<Rightarrow> Inl e
      | Inr v \<Rightarrow> (case collect xs of Inl e \<Rightarrow> Inl e | Inr vs \<Rightarrow> Inr (v # vs)))"

text \<open>
  \<^verbatim>\<open>.join(GameResult, PlayerProfile.player_id == GameResult.player_id)\<close> grouped by the
  profile: an inner join, so a profile without a joined result forms no group. The query
  has no \<^verbatim>\<open>ORDER BY\<close>; the default engine returns the groups in the order of the grouping
  key, the player id.
\<close>

definition leaderboard_query :: "store \<Rightarrow> error + agg_row list" where
  "leaderboard_query st =
     collect (map (aggregate st)
       (sort_key p_player_id
          (filter (\<lambda>p. player_results st (p_player_id p) \<noteq> []) (player_profiles st))))"

text \<open>
  The same join with \<^verbatim>\<open>isouter=True\<close>, filtered to one user's profiles: a profile
  without results forms a group whose result columns are all \<^verbatim>\<open>NULL\<close>, over which the
  aggregates are \<^verbatim>\<open>NULL\<close>.
\<close>

definition user_players_query :: "store \<Rightarrow> string \<Rightarrow> error + agg_row list" where
  "user_players_query st uid =
     collect (map (aggregate st)
       (sort_key p_player_id (filter (\<lambda>p. p_user_id p = uid) (player_profiles st))))"

text \<open>
  \<^verbatim>\<open>sorted(rows, key=k, reverse=True)\<close>: Python reverses the list, sorts it stably in
  ascending order and reverses the outcome.
\<close>

definition sorted_reverse :: "('a \<Rightarrow> 'k::linorder) \<Rightarrow> 'a list \<Rightarrow> 'a list" where
  "sorted_reverse key xs = rev (sort_key key (rev xs))"

text \<open>The slice \<^verbatim>\<open>xs[:limit]\<close>; a negative bound counts from the end.\<close>

definition slice_to :: "'a list \<Rightarrow> int \<Rightarrow> 'a list" where
  "slice_to xs limit =
     (if 0 \<le> limit then take (nat limit) xs else take (nat (int (length xs) + limit)) xs)"

text \<open>
  The sort fields that the endpoint's pattern lets through, and the sort with the key
  \<^verbatim>\<open>getattr(row, sort) or 0\<close>.
\<close>

datatype sort_field = Avg_score | Wins | Total_points

definition sort_rows :: "sort_field \<Rightarrow> agg_row list \<Rightarrow> agg_row list" where
  "sort_rows sort' aggregation =
     (case sort' of
        Avg_score \<Rightarrow> sorted_reverse (\<lambda>row. or_0 (a_avg_score row)) aggregation
      | Wins \<Rightarrow> sorted_reverse (\<lambda>row. or_0 (a_wins row)) aggregation
      | Total_points \<Rightarrow> sorted_reverse (\<lambda>row. or_0 (a_total_points row)) aggregation)"

definition to_entry :: "agg_row \<Rightarrow> PlayerInfoEntry" where
  "to_entry row =
     \<lparr>i_player_id = a_player_id row,
      i_display_name = a_display_name row,
      i_wins = or_0 (a_wins row),
      i_avg_score = or_0 (a_avg_score row),
      i_total_points = or_0 (a_total_points row)\<rparr>"

definition get_leaderboard ::
  "session \<Rightarrow> sort_field \<Rightarrow> int \<Rightarrow> (error + PlayerInfoEntry list) \<times> session"
where
  "get_leaderboard db sort' limit =
     (case leaderboard_query (committed db) of
        Inl e \<Rightarrow> (Inl e, db)
      | Inr aggregation \<Rightarrow>
          (let sorted_list = slice_to (sort_rows sort' aggregation) limit
           in (Inr (map to_entry sorted_list), db)))"

definition get_user_players ::
  "session \<Rightarrow> string \<Rightarrow> (error + PlayerInfoEntry list) \<times> session"
where
  "get_user_players db user_id =
     (case db_get_User db user_id of
        None \<Rightarrow> (Inl (HTTPException 404 ''User not found''), db)
      | Some user \<Rightarrow>
          (case user_players_query (committed db) user_id of
             Inl e \<Rightarrow> (Inl e, db)
           | Inr results \<Rightarrow> (Inr (map to_entry results), db)))"

text \<open>The three read requests as the endpoints run them (backend/main.py).\<close>

definition player_stats_endpoint ::
  "store \<Rightarrow> string \<Rightarrow> (error + PlayerStatsResponse) \<times> store"
where
  "player_stats_endpoint st player_id = get_db st (\<lambda>db. get_player_stats db player_id)"

definition leaderboard_endpoint ::
  "store \<Rightarrow> sort_field \<Rightarrow> int \<Rightarrow> (error + PlayerInfoEntry list) \<times> store"
where
  "leaderboard_endpoint st sort' limit = get_db st (\<lambda>db. get_leaderboard db sort' limit)"

definition user_players_endpoint ::
  "store \<Rightarrow> string \<Rightarrow> (error + PlayerInfoEntry list) \<times> store"
where
  "user_players_endpoint st user_id = get_db st (\<lambda>db. get_user_players db user_id)"

section \<open>Vocabulary of the properties\<close>

text \<open>
  The payload of a submitted entry, whichever way it is read, and whether the five reads
  of the loop body all succeed on it.
\<close>

fun entry_of :: "result_obj \<Rightarrow> GameResultEntry" where
  "entry_of (PydanticModel m) = m"
| "entry_of (DictLike d) = d"

fun readable :: "result_obj \<Rightarrow> bool" where
  "readable (PydanticModel m) \<longleftrightarrow>
     e_player_id m \<noteq> [] \<and> e_score m \<noteq> 0 \<and> e_turns m \<noteq> 0 \<and> e_farkles m \<noteq> 0 \<and> e_won m"
| "readable (DictLike d) \<longleftrightarrow> True"

definition user_exists :: "store \<Rightarrow> string \<Rightarrow> bool" where
  "user_exists st uid \<longleftrightarrow> uid \<in> set (map u_user_id (users st))"

definition player_exists :: "store \<Rightarrow> string \<Rightarrow> bool" where
  "player_exists st pid \<longleftrightarrow> pid \<in> set (map p_player_id (player_profiles st))"

text \<open>The game result row that a submitted entry stands for.\<close>

definition row_of_entry :: "string \<Rightarrow> string \<Rightarrow> GameResultEntry \<Rightarrow> GameResult" where
  "row_of_entry result_id game_id e =
     \<lparr>r_result_id = result_id, r_game_id = game_id, r_player_id = Some (e_player_id e),
      r_score = e_score e, r_turns_taken = e_turns e, r_farkles = e_farkles e,
      r_won = e_won e\<rparr>"

text \<open>
  The rows that the loop adds for a list of entries, drawing identifiers from the
  \<open>k\<close>-th on.
\<close>

definition result_rows ::
  "string \<Rightarrow> (nat \<Rightarrow> string) \<Rightarrow> nat \<Rightarrow> result_obj list \<Rightarrow> GameResult list"
where
  "result_rows game_id uuid4 k results =
     map (\<lambda>(i, res). row_of_entry (uuid4 i) game_id (entry_of res)) (enumerate k results)"

text \<open>The game row of a submission.\<close>

definition game_row ::
  "string \<Rightarrow> datetime option \<Rightarrow> (nat \<Rightarrow> string) \<Rightarrow> datetime \<Rightarrow> Game"
where
  "game_row user_id played_at uuid4 utcnow =
     \<lparr>g_game_id = uuid4 0, g_user_id = user_id,
      g_played_at = (case played_at of Some t \<Rightarrow> t | None \<Rightarrow> utcnow)\<rparr>"

text \<open>
  A list of integers can be summed in the store when each partial sum, taken from the
  front, is a 64-bit integer. A player's statistics need that of the win flags, the
  scores and the farkles of the player's results; a summary needs it of the win flags
  and the scores.
\<close>

definition no_overflow :: "int list \<Rightarrow> bool" where
  "no_overflow xs \<longleftrightarrow> (\<forall>n \<in> {1..length xs}. int64 (sum_list (take n xs)))"









text \<open>
  A game's results hold at most one row per non-null player id; and every result row
  belongs to a stored game.
\<close>

definition game_rows :: "store \<Rightarrow> string \<Rightarrow> GameResult list" where
  "game_rows st gid = filter (\<lambda>r. r_game_id r = gid) (game_results st)"

definition one_result_per_player :: "store \<Rightarrow> bool" where
  "one_result_per_player st \<longleftrightarrow>
     (\<forall>g \<in> set (games st).
        distinct (filter (\<lambda>x. x \<noteq> None) (map r_player_id (game_rows st (g_game_id g)))))"

definition results_have_games :: "store \<Rightarrow> bool" where
  "results_have_games st \<longleftrightarrow>
     (\<forall>r \<in> set (game_results st). r_game_id r \<in> set (map g_game_id (games st)))"

definition empty_store :: store where
  "empty_store = \<lparr>users = [], player_profiles = [], games = [], game_results = []\<rparr>"

text \<open>
  The stores that sequences of write requests lead to from the empty store, when no
  submission names a player twice. Requests that raise are included: they leave the
  store as the request left it.
\<close>

inductive reachable_distinct :: "store \<Rightarrow> bool" where
  rd_empty: "reachable_distinct empty_store"
| rd_player:
    "reachable_distinct st \<Longrightarrow>
     reachable_distinct (snd (create_player_endpoint st user_id display_name uuid4 utcnow))"
| rd_game:
    "reachable_distinct st \<Longrightarrow>
     distinct (map (\<lambda>res. e_player_id (entry_of res)) results) \<Longrightarrow>
     reachable_distinct
       (snd (post_game_result_endpoint st user_id played_at results uuid4 utcnow))"

text \<open>The rows that registering a player writes.\<close>

definition anonymous_user :: "string \<Rightarrow> datetime \<Rightarrow> User" where
  "anonymous_user user_id utcnow =
     \<lparr>u_user_id = user_id, u_login_type = ''anonymous'', u_created_at = utcnow\<rparr>"

definition new_profile :: "string \<Rightarrow> string \<Rightarrow> string \<Rightarrow> datetime \<Rightarrow> PlayerProfile" where
  "new_profile player_id user_id display_name utcnow =
     \<lparr>p_player_id = player_id, p_user_id = user_id, p_display_name = display_name,
      p_created_at = utcnow\<rparr>"

text \<open>The integers of result rows fit their 64-bit columns.\<close>

definition rows_fit :: "GameResult list \<Rightarrow> bool" where
  "rows_fit rows \<longleftrightarrow>
     list_all (\<lambda>r. int64 (r_score r) \<and> int64 (r_turns_taken r) \<and> int64 (r_farkles r)) rows"




section \<open>Example data\<close>

text \<open>
  A store with one user, three of its player profiles and no games, and the seeded
  store of \<^verbatim>\<open>scripts/seed_dev_data.py\<close> extended by a third player without games.
\<close>

definition alice :: PlayerProfile where
  "alice = \<lparr>p_player_id = ''p-alice'', p_user_id = ''u1'', p_display_name = ''Alice'',
            p_created_at = 1\<rparr>"

definition bob :: PlayerProfile where
  "bob = \<lparr>p_player_id = ''p-bob'', p_user_id = ''u1'', p_display_name = ''Bob'',
          p_created_at = 1\<rparr>"

definition carol :: PlayerProfile where
  "carol = \<lparr>p_player_id = ''p-carol'', p_user_id = ''u1'', p_display_name = ''Carol'',
            p_created_at = 2\<rparr>"

definition store0 :: store where
  "store0 =
     \<lparr>users = [\<lparr>u_user_id = ''u1'', u_login_type = ''anonymous'', u_created_at = 1\<rparr>],
      player_profiles = [alice, bob, carol],
      games = [],
      game_results = []\<rparr>"

definition seeded :: store where
  "seeded =
     store0\<lparr>games := [\<lparr>g_game_id = ''g1'', g_user_id = ''u1'', g_played_at = 3\<rparr>],
            game_results :=
              [\<lparr>r_result_id = ''r1'', r_game_id = ''g1'', r_player_id = Some ''p-alice'',
                r_score = 9800, r_turns_taken = 8, r_farkles = 1, r_won = True\<rparr>,
               \<lparr>r_result_id = ''r2'', r_game_id = ''g1'', r_player_id = Some ''p-bob'',
                r_score = 8700, r_turns_taken = 9, r_farkles = 3, r_won = False\<rparr>]\<rparr>"

text \<open>
  Identifier draws for the examples: \<^verbatim>\<open>"id"\<close>, \<^verbatim>\<open>"id+"\<close>, \<^verbatim>\<open>"id++"\<close>, and so on; a second
  series that starts at \<^verbatim>\<open>"id+++"\<close>; and a clock that reads 10, 11, 12, and so on.
\<close>

definition ids :: "nat \<Rightarrow> string" where
  "ids k = ''id'' @ replicate k CHR ''+''"

definition later_ids :: "nat \<Rightarrow> string" where
  "later_ids k = ''id+++'' @ replicate k CHR ''+''"

definition clock :: "nat \<Rightarrow> datetime" where
  "clock k = 10 + k"

text \<open>An identifier source that draws an id already taken in the first example store.\<close>

definition taken_ids :: "nat \<Rightarrow> string" where
  "taken_ids k = ''p-alice''"


text \<open>
  The seeded store after a second game, in which Alice scores 8700 and loses: her two
  results are those of the specification's example.
\<close>

definition replayed :: store where
  "replayed =
     seeded\<lparr>games := games seeded @ [\<lparr>g_game_id = ''g2'', g_user_id = ''u1'', g_played_at = 4\<rparr>],
            game_results := game_results seeded @
              [\<lparr>r_result_id = ''r3'', r_game_id = ''g2'', r_player_id = Some ''p-alice'',
                r_score = 8700, r_turns_taken = 9, r_farkles = 3, r_won = False\<rparr>,
               \<lparr>r_result_id = ''r4'', r_game_id = ''g2'', r_player_id = Some ''p-bob'',
                r_score = 9000, r_turns_taken = 7, r_farkles = 0, r_won = True\<rparr>]\<rparr>"


text \<open>
  From the empty store: one registered player; a second player of the same user; a
  submission that names the first player twice and the store after it; a submission
  that names both players and the store after it.
\<close>

definition registered :: store where
  "registered = snd (create_player_endpoint empty_store ''u1'' ''Alice'' ids clock)"

definition registered_two :: store where
  "registered_two = snd (create_player_endpoint registered ''u1'' ''Bob'' later_ids clock)"

definition duplicate_entries :: "result_obj list" where
  "duplicate_entries =
     [PydanticModel \<lparr>e_player_id = ''id'', e_score = 500, e_turns = 3, e_farkles = 1,
        e_won = True\<rparr>,
      PydanticModel \<lparr>e_player_id = ''id'', e_score = 700, e_turns = 4, e_farkles = 2,
        e_won = True\<rparr>]"

definition duplicated :: store where
  "duplicated = snd (post_game_result_endpoint registered ''u1'' None duplicate_entries ids 2)"

definition two_entries :: "result_obj list" where
  "two_entries =
     [PydanticModel \<lparr>e_player_id = ''id'', e_score = 500, e_turns = 3, e_farkles = 1,
        e_won = True\<rparr>,
      PydanticModel \<lparr>e_player_id = ''id+++'', e_score = 300, e_turns = 3, e_farkles = 2,
        e_won = True\<rparr>]"

definition played_two :: store where
  "played_two = snd (post_game_result_endpoint registered_two ''u1'' None two_entries ids 2)"




section \<open>Unfolding the requests and the examples\<close>

lemmas eval_defs =
  post_game_result_endpoint_def create_player_endpoint_def get_db_def db_close_def
  SessionLocal_def create_game_result_def create_player_def db_get_User_def
  db_get_PlayerProfile_def db_add_def db_commit_def parent_keys_ok_def result_keys_ok_def integers_ok_def int64_def
  fresh_keys_def
  flush_def add_results.simps Let_def

lemmas store0_defs = store0_def alice_def bob_def carol_def

lemmas seeded_defs = seeded_def replayed_def store0_def alice_def bob_def carol_def

section \<open>The loop of \<^verbatim>\<open>create_game_result\<close>\<close>

lemma add_results_committed:
  "add_results db gid u k rs = (r, db') \<Longrightarrow> committed db' = committed db"
proof (induction rs arbitrary: db k)
  case Nil
  then show ?case by simp
next
  case (Cons res rest)
  then show ?case
    by (auto simp: db_add_def db_get_PlayerProfile_def split: sum.splits option.splits)
qed

lemma find_player_exists:
  "(find (\<lambda>p. p_player_id p = pid) (player_profiles st) = None) \<longleftrightarrow> \<not> player_exists st pid"
  by (auto simp: player_exists_def find_None_iff)

lemma find_user_exists:
  "(find (\<lambda>u. u_user_id u = uid) (users st) = None) \<longleftrightarrow> \<not> user_exists st uid"
  by (auto simp: user_exists_def find_None_iff)

lemma readable_reads:
  "readable res \<Longrightarrow>
     read_player_id res = Inr (e_player_id (entry_of res)) \<and>
     read_score res = Inr (e_score (entry_of res)) \<and>
     read_turns res = Inr (e_turns (entry_of res)) \<and>
     read_farkles res = Inr (e_farkles (entry_of res)) \<and>
     read_won res = Inr (e_won (entry_of res))"
  by (cases res) simp_all

text \<open>One pass of the loop body, by cases on the entry.\<close>

lemma add_results_step_unreadable:
  "\<not> readable res \<Longrightarrow> add_results db gid u k (res # rest) = (Inl AttributeError, db)"
  by (cases res) (auto split: sum.splits)

lemma add_results_step_unknown:
  "readable res \<Longrightarrow> \<not> player_exists (committed db) (e_player_id (entry_of res)) \<Longrightarrow>
   add_results db gid u k (res # rest) =
     (Inl (HTTPException 404 (''Player '' @ e_player_id (entry_of res) @ '' not found'')), db)"
  by (simp add: readable_reads db_get_PlayerProfile_def find_player_exists [symmetric])

lemma add_results_step_known:
  "readable res \<Longrightarrow> player_exists (committed db) (e_player_id (entry_of res)) \<Longrightarrow>
   add_results db gid u k (res # rest) =
     add_results (db_add db (GameResultObj (row_of_entry (u k) gid (entry_of res))))
       gid u (Suc k) rest"
  using find_player_exists [of "e_player_id (entry_of res)" "committed db"]
  by (auto simp add: readable_reads db_get_PlayerProfile_def row_of_entry_def split: option.splits)

declare add_results.simps(2) [simp del]

lemma db_add_simps:
  "committed (db_add db obj) = committed db"
  "pending (db_add db obj) = pending db @ [obj]"
  by (simp_all add: db_add_def)

lemma add_results_accepted:
  "\<forall>res \<in> set rs. readable res \<and> player_exists (committed db) (e_player_id (entry_of res)) \<Longrightarrow>
   add_results db gid u k rs =
     (Inr (), db\<lparr>pending := pending db @ map GameResultObj (result_rows gid u k rs)\<rparr>)"
proof (induction rs arbitrary: db k)
  case Nil
  show ?case by (simp add: result_rows_def)
next
  case (Cons res rest)
  let ?db1 = "db_add db (GameResultObj (row_of_entry (u k) gid (entry_of res)))"
  from Cons.prems have step:
    "add_results db gid u k (res # rest) = add_results ?db1 gid u (Suc k) rest"
    by (simp add: add_results_step_known)
  from Cons.prems have
    "\<forall>x \<in> set rest. readable x \<and> player_exists (committed ?db1) (e_player_id (entry_of x))"
    by (simp add: db_add_simps)
  from Cons.IH [OF this, of "Suc k"] step show ?case
    by (simp add: db_add_def result_rows_def enumerate_simps)
qed

lemma add_results_Inr:
  "add_results db gid u k rs = (Inr x, db') \<Longrightarrow>
   (\<forall>res \<in> set rs. readable res \<and> player_exists (committed db) (e_player_id (entry_of res)))"
proof (induction rs arbitrary: db k)
  case Nil
  show ?case by simp
next
  case (Cons res rest)
  have r: "readable res"
    using Cons.prems add_results_step_unreadable [of res db gid u k rest] by auto
  have kn: "player_exists (committed db) (e_player_id (entry_of res))"
    using Cons.prems r add_results_step_unknown [of res db gid u k rest] by auto
  from Cons.prems have
    "add_results (db_add db (GameResultObj (row_of_entry (u k) gid (entry_of res))))
       gid u (Suc k) rest = (Inr x, db')"
    by (simp add: add_results_step_known r kn)
  from Cons.IH [OF this] r kn show ?case
    by (simp add: db_add_simps)
qed


lemma add_results_raises:
  "\<forall>x \<in> set pre. readable x \<and> player_exists (committed db) (e_player_id (entry_of x)) \<Longrightarrow>
   \<not> (readable res \<and> player_exists (committed db) (e_player_id (entry_of res))) \<Longrightarrow>
   fst (add_results db gid u k (pre @ res # post)) =
     Inl (if readable res
          then HTTPException 404 (''Player '' @ e_player_id (entry_of res) @ '' not found'')
          else AttributeError)"
proof (induction pre arbitrary: db k)
  case Nil
  then show ?case
    using add_results_step_unreadable [of res db gid u k post]
          add_results_step_unknown [of res db gid u k post]
    by auto
next
  case (Cons x pre)
  from Cons.prems have
    "add_results db gid u k ((x # pre) @ res # post) =
     add_results (db_add db (GameResultObj (row_of_entry (u k) gid (entry_of x))))
       gid u (Suc k) (pre @ res # post)"
    by (simp add: add_results_step_known)
  moreover from Cons.prems have
    "fst (add_results (db_add db (GameResultObj (row_of_entry (u k) gid (entry_of x))))
       gid u (Suc k) (pre @ res # post)) =
     Inl (if readable res
          then HTTPException 404 (''Player '' @ e_player_id (entry_of res) @ '' not found'')
          else AttributeError)"
    by (intro Cons.IH) (simp_all add: db_add_simps)
  ultimately show ?case by simp
qed

section \<open>\<^verbatim>\<open>create_game_result\<close> as a whole\<close>

lemma pending_map_simps:
  "pending_users (map GameResultObj rows) = []"
  "pending_players (map GameResultObj rows) = []"
  "pending_games (map GameResultObj rows) = []"
  "pending_results (map GameResultObj rows) = rows"
  by (induction rows) simp_all

lemma result_rows_simps:
  "result_rows gid u k [] = []"
  "result_rows gid u k (res # rest) =
     row_of_entry (u k) gid (entry_of res) # result_rows gid u (Suc k) rest"
  by (simp_all add: result_rows_def)

lemma map_result_id_result_rows:
  "map r_result_id (result_rows gid u k rs) = map u [k..<k + length rs]"
proof -
  have "map r_result_id (result_rows gid u k rs) = map (u \<circ> fst) (enumerate k rs)"
    by (simp add: result_rows_def row_of_entry_def split_def comp_def)
  also have "\<dots> = map u (map fst (enumerate k rs))"
    by (simp only: map_map)
  also have "\<dots> = map u [k..<k + length rs]"
    by (simp only: map_fst_enumerate)
  finally show ?thesis .
qed

lemma map_game_id_result_rows:
  "map r_game_id (result_rows gid u k rs) = replicate (length rs) gid"
  by (induction rs arbitrary: k) (simp_all add: result_rows_simps row_of_entry_def)

lemma map_player_id_result_rows:
  "map r_player_id (result_rows gid u k rs) = map (\<lambda>res. Some (e_player_id (entry_of res))) rs"
  by (induction rs arbitrary: k) (simp_all add: result_rows_simps row_of_entry_def)

lemma find_user_id:
  "find (\<lambda>u. u_user_id u = uid) us = Some user \<Longrightarrow> u_user_id user = uid"
  by (auto simp: find_Some_iff)

lemma create_game_result_no_user:
  "\<not> user_exists (committed db) uid \<Longrightarrow>
   create_game_result db uid pa rs u now = (Inl (HTTPException 404 ''User not found''), db)"
  by (simp add: create_game_result_def db_get_User_def find_user_exists [symmetric])

lemma create_game_result_user:
  "user_exists (committed db) uid \<Longrightarrow>
   create_game_result db uid pa rs u now =
     (case add_results (db_add db (GameObj (game_row uid pa u now))) (u 0) u 1 rs of
        (Inl e, db2) \<Rightarrow> (Inl e, db2)
      | (Inr _, db2) \<Rightarrow>
          (case db_commit db2 of Inl e \<Rightarrow> (Inl e, db2) | Inr db3 \<Rightarrow> (Inr (u 0), db3)))"
proof -
  assume "user_exists (committed db) uid"
  then have "find (\<lambda>u. u_user_id u = uid) (users (committed db)) \<noteq> None"
    by (simp add: find_user_exists)
  then obtain user where f: "db_get_User db uid = Some user"
    unfolding db_get_User_def by blast
  then have "u_user_id user = uid"
    unfolding db_get_User_def by (rule find_user_id)
  then show ?thesis
    unfolding create_game_result_def game_row_def Let_def f option.case
    by (simp only:)
qed

lemma create_game_result_committed:
  "create_game_result db uid pa rs u now = (Inl e, db') \<Longrightarrow> committed db' = committed db"
proof (cases "user_exists (committed db) uid")
  case False
  assume "create_game_result db uid pa rs u now = (Inl e, db')"
  with False show ?thesis by (simp add: create_game_result_no_user)
next
  case True
  assume a: "create_game_result db uid pa rs u now = (Inl e, db')"
  obtain r db2 where ar:
    "add_results (db_add db (GameObj (game_row uid pa u now))) (u 0) u 1 rs = (r, db2)"
    by (cases "add_results (db_add db (GameObj (game_row uid pa u now))) (u 0) u 1 rs")
  then have c: "committed db2 = committed db"
    using add_results_committed [OF ar] by (simp add: db_add_simps)
  from a True ar have "db' = db2"
    by (auto simp: create_game_result_user split: sum.splits)
  with c show ?thesis by simp
qed

text \<open>A submission that raises leaves the store as it was.\<close>

lemma post_game_result_raises_unchanged:
  "post_game_result_endpoint st uid pa rs u now = (Inl e, st') \<Longrightarrow> st' = st"
proof -
  assume a: "post_game_result_endpoint st uid pa rs u now = (Inl e, st')"
  obtain r db' where c: "create_game_result (SessionLocal st) uid pa rs u now = (r, db')"
    by (cases "create_game_result (SessionLocal st) uid pa rs u now")
  with a have "r = Inl e" "st' = committed db'"
    by (simp_all add: post_game_result_endpoint_def get_db_def db_close_def)
  with c create_game_result_committed [of "SessionLocal st" uid pa rs u now e db']
  show ?thesis by (simp add: SessionLocal_def)
qed

lemma flush_game:
  "flush st (GameObj g # map GameResultObj rows) =
     st\<lparr>games := games st @ [g], game_results := game_results st @ rows\<rparr>"
  by (simp add: flush_def pending_map_simps)

text \<open>The commit of a submission: a game and its result rows.\<close>

lemma db_commit_game:
  "db_commit \<lparr>committed = st, pending = GameObj g # map GameResultObj rows\<rparr> =
     (if g_game_id g \<in> set (map g_game_id (games st)) then Inl IntegrityError
      else if \<not> rows_fit rows then Inl OverflowError
      else if \<not> fresh_keys (map r_result_id (game_results st)) (map r_result_id rows)
      then Inl IntegrityError
      else Inr \<lparr>committed = st\<lparr>games := games st @ [g],
                                 game_results := game_results st @ rows\<rparr>,
                pending = []\<rparr>)"
  by (simp add: db_commit_def parent_keys_ok_def result_keys_ok_def integers_ok_def
      rows_fit_def pending_map_simps fresh_keys_def flush_game)

text \<open>A submission whose entries can all be read and placed reaches the commit.\<close>

lemma create_game_result_readable_known:
  assumes "user_exists (committed db) uid"
    and "\<forall>res \<in> set rs. readable res \<and> player_exists (committed db) (e_player_id (entry_of res))"
    and "pending db = []"
  shows "create_game_result db uid pa rs u now =
     (let db2 = db\<lparr>pending :=
            GameObj (game_row uid pa u now) # map GameResultObj (result_rows (u 0) u 1 rs)\<rparr>
      in case db_commit db2 of
           Inl e \<Rightarrow> (Inl e, db2)
         | Inr db3 \<Rightarrow> (Inr (u 0), db3))"
proof -
  let ?db1 = "db_add db (GameObj (game_row uid pa u now))"
  from assms(2) have
    "\<forall>res \<in> set rs. readable res \<and> player_exists (committed ?db1) (e_player_id (entry_of res))"
    by (simp add: db_add_simps)
  from add_results_accepted [OF this, of "u 0" u 1] assms(3) have
    "add_results ?db1 (u 0) u 1 rs =
       (Inr (), db\<lparr>pending :=
          GameObj (game_row uid pa u now) # map GameResultObj (result_rows (u 0) u 1 rs)\<rparr>)"
    by (simp add: db_add_def)
  then show ?thesis
    by (simp add: create_game_result_user [OF assms(1)] Let_def)
qed

section \<open>Submissions with falsy fields\<close>

text \<open>
  C2. The specification has a submission whose entries all name existing players,
  entries with a score, turns or farkles of \<open>0\<close> or a false win flag included, return a
  fresh game id and write one game row and one result row per entry. In the code, the
  endpoint's Pydantic entry for an existing player with \<open>won = False\<close>, and likewise with
  score \<open>0\<close>, makes the call raise \<^verbatim>\<open>AttributeError\<close>; no row is written.
\<close>

theorem C2_falsy_entry_raises:
  "post_game_result_endpoint store0 ''u1'' None
     [PydanticModel \<lparr>e_player_id = ''p-alice'', e_score = 500, e_turns = 3, e_farkles = 1,
        e_won = False\<rparr>] ids 5 =
   (Inl AttributeError, store0) \<and>
   post_game_result_endpoint store0 ''u1'' None
     [PydanticModel \<lparr>e_player_id = ''p-alice'', e_score = 0, e_turns = 3, e_farkles = 1,
        e_won = True\<rparr>] ids 5 =
   (Inl AttributeError, store0)"
  by (simp add: eval_defs store0_defs)

text \<open>The same payload as a dict is accepted, and its zero score and false flag are stored.\<close>

lemma dict_entry_accepted:
  "post_game_result_endpoint store0 ''u1'' None
     [DictLike \<lparr>e_player_id = ''p-alice'', e_score = 0, e_turns = 3, e_farkles = 1,
        e_won = False\<rparr>] ids 5 =
   (Inr ''id'',
    store0\<lparr>games := [\<lparr>g_game_id = ''id'', g_user_id = ''u1'', g_played_at = 5\<rparr>],
           game_results :=
             [\<lparr>r_result_id = ''id+'', r_game_id = ''id'', r_player_id = Some ''p-alice'',
               r_score = 0, r_turns_taken = 3, r_farkles = 1, r_won = False\<rparr>]\<rparr>)"
  by (simp add: eval_defs store0_defs ids_def)

text \<open>
  C1. The specification has a submission with an unknown user, or with an entry whose
  player id names no profile, fail with NotFound (naming the player) and leave the store
  unchanged. In the code, an entry for the unknown player \<^verbatim>\<open>ghost\<close> with \<open>won = False\<close>
  raises \<^verbatim>\<open>AttributeError\<close> before the player is looked up; the store is unchanged.
\<close>

theorem C1_unknown_player_raises_AttributeError:
  "\<not> player_exists store0 ''ghost'' \<and>
   post_game_result_endpoint store0 ''u1'' None
     [PydanticModel \<lparr>e_player_id = ''ghost'', e_score = 500, e_turns = 3, e_farkles = 1,
        e_won = False\<rparr>] ids 5 =
   (Inl AttributeError, store0)"
  by (simp add: eval_defs player_exists_def store0_defs)

section \<open>The submission endpoint\<close>

lemma post_game_result_endpoint_user:
  "user_exists st uid \<Longrightarrow>
   post_game_result_endpoint st uid pa rs u now =
     (case add_results (db_add (SessionLocal st) (GameObj (game_row uid pa u now))) (u 0) u 1 rs of
        (Inl e, db2) \<Rightarrow> (Inl e, st)
      | (Inr _, db2) \<Rightarrow>
          (case db_commit db2 of Inl e \<Rightarrow> (Inl e, st) | Inr db3 \<Rightarrow> (Inr (u 0), committed db3)))"
proof -
  assume ue: "user_exists st uid"
  let ?db1 = "db_add (SessionLocal st) (GameObj (game_row uid pa u now))"
  obtain r db2 where ar: "add_results ?db1 (u 0) u 1 rs = (r, db2)"
    by (cases "add_results ?db1 (u 0) u 1 rs")
  from add_results_committed [OF ar] have c: "committed db2 = st"
    by (simp add: db_add_simps SessionLocal_def)
  from ue have ue': "user_exists (committed (SessionLocal st)) uid"
    by (simp add: SessionLocal_def)
  show ?thesis
    unfolding post_game_result_endpoint_def get_db_def create_game_result_user [OF ue'] ar
    using c by (simp add: db_close_def split: sum.splits)
qed



text \<open>Conversely, the loop does raise at the first entry it cannot read or place.\<close>

lemma post_game_result_endpoint_raises:
  assumes "user_exists st uid"
    and "\<forall>x \<in> set pre. readable x \<and> player_exists st (e_player_id (entry_of x))"
    and "readable res" and "\<not> player_exists st (e_player_id (entry_of res))"
  shows "post_game_result_endpoint st uid pa (pre @ res # post) u now =
     (Inl (HTTPException 404 (''Player '' @ e_player_id (entry_of res) @ '' not found'')), st)"
proof -
  let ?db1 = "db_add (SessionLocal st) (GameObj (game_row uid pa u now))"
  have st: "committed ?db1 = st"
    by (simp add: db_add_simps SessionLocal_def)
  obtain r db2 where ar: "add_results ?db1 (u 0) u 1 (pre @ res # post) = (r, db2)"
    by (cases "add_results ?db1 (u 0) u 1 (pre @ res # post)")
  from add_results_raises [of pre ?db1 res "u 0" u 1 post] assms(2-4) ar
  have "r = Inl (HTTPException 404 (''Player '' @ e_player_id (entry_of res) @ '' not found''))"
    by (simp add: st)
  with ar show ?thesis
    by (simp add: post_game_result_endpoint_user [OF assms(1)])
qed

lemma post_game_result_endpoint_no_user:
  "\<not> user_exists st uid \<Longrightarrow>
   post_game_result_endpoint st uid pa rs u now =
     (Inl (HTTPException 404 ''User not found''), st)"
  by (simp add: post_game_result_endpoint_def get_db_def create_game_result_no_user
      SessionLocal_def db_close_def)

lemma rows_fit_result_rows:
  "rows_fit (result_rows gid u k rs) \<longleftrightarrow>
     (\<forall>res \<in> set rs. int64 (e_score (entry_of res)) \<and> int64 (e_turns (entry_of res)) \<and>
        int64 (e_farkles (entry_of res)))"
  by (induction rs arbitrary: k)
     (simp_all add: rows_fit_def result_rows_simps row_of_entry_def)

text \<open>
  What the loop accepts: entries it can read that name existing players. With fresh
  identifiers and integers of 64 bits the submission returns the game id and appends the
  game and one row per entry, each carrying the entry's fields.
\<close>

lemma post_game_result_endpoint_accepted:
  assumes "user_exists st uid"
    and "\<forall>res \<in> set rs. readable res \<and> player_exists st (e_player_id (entry_of res))"
    and "\<forall>res \<in> set rs. int64 (e_score (entry_of res)) \<and> int64 (e_turns (entry_of res)) \<and>
           int64 (e_farkles (entry_of res))"
    and "u 0 \<notin> set (map g_game_id (games st))"
    and "fresh_keys (map r_result_id (game_results st)) (map u [1..<1 + length rs])"
  shows "post_game_result_endpoint st uid pa rs u now =
     (Inr (u 0),
      st\<lparr>games := games st @ [game_row uid pa u now],
         game_results := game_results st @ result_rows (u 0) u 1 rs\<rparr>)"
proof -
  let ?os = "GameObj (game_row uid pa u now) # map GameResultObj (result_rows (u 0) u 1 rs)"
  have e: "(SessionLocal st)\<lparr>pending := ?os\<rparr> = \<lparr>committed = st, pending = ?os\<rparr>"
    by (simp add: SessionLocal_def)
  have c: "db_commit ((SessionLocal st)\<lparr>pending := ?os\<rparr>) =
      Inr \<lparr>committed = st\<lparr>games := games st @ [game_row uid pa u now],
                          game_results := game_results st @ result_rows (u 0) u 1 rs\<rparr>,
           pending = []\<rparr>"
    unfolding e using assms(3-5)
    by (simp add: db_commit_game rows_fit_result_rows map_result_id_result_rows game_row_def)
  have cgr: "create_game_result (SessionLocal st) uid pa rs u now =
      (let db2 = (SessionLocal st)\<lparr>pending := ?os\<rparr>
       in case db_commit db2 of Inl e \<Rightarrow> (Inl e, db2) | Inr db3 \<Rightarrow> (Inr (u 0), db3))"
    by (rule create_game_result_readable_known) (use assms(1,2) in \<open>simp_all add: SessionLocal_def\<close>)
  show ?thesis
    unfolding post_game_result_endpoint_def get_db_def cgr Let_def c
    by (simp add: db_close_def)
qed

section \<open>Read requests\<close>

text \<open>
  C9. The three read requests leave the store as it was, whether they return or raise.
\<close>

theorem C9_reads_leave_store_unchanged:
  "snd (player_stats_endpoint st player_id) = st \<and>
   snd (leaderboard_endpoint st sort' limit) = st \<and>
   snd (user_players_endpoint st user_id) = st"
  by (simp add: player_stats_endpoint_def leaderboard_endpoint_def user_players_endpoint_def
      get_db_def db_close_def SessionLocal_def get_player_stats_def get_leaderboard_def
      get_user_players_def Let_def split: option.splits sum.splits)

section \<open>Sums in the store\<close>



text \<open>A sum fits whenever the numbers are not negative and their total fits.\<close>

lemma no_overflow_nonnegative:
  assumes "\<forall>x \<in> set xs. 0 \<le> x" and "sum_list xs < 2 ^ 63"
  shows "no_overflow xs"
proof -
  have "0 \<le> sum_list (take n xs) \<and> sum_list (take n xs) \<le> sum_list xs" for n
  proof -
    have "sum_list xs = sum_list (take n xs) + sum_list (drop n xs)"
      by (metis append_take_drop_id sum_list_append)
    moreover have "0 \<le> sum_list (take n xs)" "0 \<le> sum_list (drop n xs)"
      using assms(1) by (auto intro!: sum_list_nonneg dest: in_set_takeD in_set_dropD)
    ultimately show ?thesis by simp
  qed
  note b = this
  have p: "(0::int) < 2 ^ 63" by simp
  show ?thesis
    unfolding no_overflow_def int64_def
  proof
    fix n assume "n \<in> {1..length xs}"
    from b [of n] assms(2) p
    show "- (2 ^ 63) \<le> sum_list (take n xs) \<and> sum_list (take n xs) < 2 ^ 63"
      by linarith
  qed
qed


section \<open>Registering a player\<close>

lemma create_player_endpoint_eq:
  "create_player_endpoint st uid name u now =
     (let st1 = (if user_exists st uid then st
                 else st\<lparr>users := users st @ [anonymous_user uid (now 0)]\<rparr>);
          t = now (if user_exists st uid then 0 else 1)
      in if player_exists st (u 0) then (Inl IntegrityError, st1)
         else (Inr (u 0),
               st1\<lparr>player_profiles := player_profiles st @ [new_profile (u 0) uid name t]\<rparr>))"
proof (cases "user_exists st uid")
  case True
  then have "find (\<lambda>u. u_user_id u = uid) (users st) \<noteq> None"
    by (simp add: find_user_exists)
  then obtain user where f: "find (\<lambda>u. u_user_id u = uid) (users st) = Some user"
    by blast
  then have uid: "u_user_id user = uid" by (rule find_user_id)
  have g: "db_get_User (SessionLocal st) uid = Some user"
    by (simp add: db_get_User_def SessionLocal_def f)
  show ?thesis
    unfolding create_player_endpoint_def get_db_def create_player_def g option.case Let_def
    using True
    by (simp add: uid new_profile_def db_close_def SessionLocal_def db_add_def db_commit_def
        parent_keys_ok_def result_keys_ok_def integers_ok_def fresh_keys_def flush_def
        player_exists_def)
next
  case False
  then have g: "db_get_User (SessionLocal st) uid = None"
    by (simp add: db_get_User_def SessionLocal_def find_user_exists)
  show ?thesis
    unfolding create_player_endpoint_def get_db_def create_player_def g option.case Let_def
    using False
    by (simp add: new_profile_def anonymous_user_def db_close_def SessionLocal_def db_add_def
        db_commit_def parent_keys_ok_def result_keys_ok_def integers_ok_def fresh_keys_def
        flush_def player_exists_def user_exists_def)
qed

text \<open>
  C8. Registering a player never raises an \<^verbatim>\<open>HTTPException\<close>. Every call leaves exactly
  the users it found, and one more with login type \<^verbatim>\<open>anonymous\<close> when the user id was
  unknown. A call that returns gives back the identifier it drew, which no profile had
  before, and has appended exactly one profile carrying it. The only other outcome is
  the \<^verbatim>\<open>IntegrityError\<close> of the store, raised exactly when the identifier drawn was
  already a player id; no profile is added then.
\<close>

theorem C8_register_player:
  "fst (create_player_endpoint st user_id display_name uuid4 utcnow) \<noteq>
     Inl (HTTPException code detail) \<and>
   users (snd (create_player_endpoint st user_id display_name uuid4 utcnow)) =
     users st @ (if user_exists st user_id then [] else [anonymous_user user_id (utcnow 0)]) \<and>
   (\<forall>player_id.
      fst (create_player_endpoint st user_id display_name uuid4 utcnow) = Inr player_id \<longrightarrow>
        player_id = uuid4 0 \<and> \<not> player_exists st player_id \<and>
        player_profiles (snd (create_player_endpoint st user_id display_name uuid4 utcnow)) =
          player_profiles st @
            [new_profile player_id user_id display_name
               (utcnow (if user_exists st user_id then 0 else 1))]) \<and>
   (\<forall>e. fst (create_player_endpoint st user_id display_name uuid4 utcnow) = Inl e \<longrightarrow>
        e = IntegrityError \<and> player_exists st (uuid4 0) \<and>
        player_profiles (snd (create_player_endpoint st user_id display_name uuid4 utcnow)) =
          player_profiles st) \<and>
   games (snd (create_player_endpoint st user_id display_name uuid4 utcnow)) = games st \<and>
   game_results (snd (create_player_endpoint st user_id display_name uuid4 utcnow)) =
     game_results st"
  by (simp add: create_player_endpoint_eq Let_def)

theorem C8_witness:
  "\<not> user_exists store0 ''u2'' \<and> user_exists store0 ''u1'' \<and>
   create_player_endpoint store0 ''u2'' ''Dave'' ids clock =
     (Inr ''id'',
      store0\<lparr>users := users store0 @
                 [\<lparr>u_user_id = ''u2'', u_login_type = ''anonymous'', u_created_at = 10\<rparr>],
             player_profiles := player_profiles store0 @
                 [\<lparr>p_player_id = ''id'', p_user_id = ''u2'', p_display_name = ''Dave'',
                   p_created_at = 11\<rparr>]\<rparr>) \<and>
   create_player_endpoint store0 ''u1'' ''Dave'' ids clock =
     (Inr ''id'',
      store0\<lparr>player_profiles := player_profiles store0 @
                 [\<lparr>p_player_id = ''id'', p_user_id = ''u1'', p_display_name = ''Dave'',
                   p_created_at = 10\<rparr>]\<rparr>) \<and>
   player_exists store0 (taken_ids 0) \<and>
   create_player_endpoint store0 ''u1'' ''Dave'' taken_ids clock = (Inl IntegrityError, store0)"
proof -
  have u: "user_exists store0 ''u1''" "\<not> user_exists store0 ''u2''"
    by (simp_all add: user_exists_def store0_defs)
  have r: "fst (create_player_endpoint store0 ''u2'' ''Dave'' ids clock) = Inr ''id''"
          "fst (create_player_endpoint store0 ''u1'' ''Dave'' ids clock) = Inr ''id''"
    by (simp_all add: eval_defs store0_defs ids_def)
  have t: "player_exists store0 (taken_ids 0)"
    by (simp add: player_exists_def taken_ids_def store0_defs)
  have g: "games (snd (create_player_endpoint store0 uid ''Dave'' u clock)) = games store0"
          "game_results (snd (create_player_endpoint store0 uid ''Dave'' u clock)) =
             game_results store0" for uid u
    using C8_register_player [of store0 uid "''Dave''" u clock] by simp_all
  have "snd (create_player_endpoint store0 ''u2'' ''Dave'' ids clock) =
      store0\<lparr>users := users store0 @
                 [\<lparr>u_user_id = ''u2'', u_login_type = ''anonymous'', u_created_at = 10\<rparr>],
             player_profiles := player_profiles store0 @
                 [\<lparr>p_player_id = ''id'', p_user_id = ''u2'', p_display_name = ''Dave'',
                   p_created_at = 11\<rparr>]\<rparr>"
    using C8_register_player [of store0 "''u2''" "''Dave''" ids clock] r(1) u g [of "''u2''" ids]
    by (simp add: anonymous_user_def new_profile_def clock_def)
  moreover have "snd (create_player_endpoint store0 ''u1'' ''Dave'' ids clock) =
      store0\<lparr>player_profiles := player_profiles store0 @
                 [\<lparr>p_player_id = ''id'', p_user_id = ''u1'', p_display_name = ''Dave'',
                   p_created_at = 10\<rparr>]\<rparr>"
    using C8_register_player [of store0 "''u1''" "''Dave''" ids clock] r(2) u g [of "''u1''" ids]
    by (simp add: anonymous_user_def new_profile_def clock_def)
  moreover have "create_player_endpoint store0 ''u1'' ''Dave'' taken_ids clock =
      (Inl IntegrityError, store0)"
  proof -
    have f: "fst (create_player_endpoint store0 ''u1'' ''Dave'' taken_ids clock) =
        Inl IntegrityError"
      by (simp add: create_player_endpoint_eq t u Let_def)
    with C8_register_player [of store0 "''u1''" "''Dave''" taken_ids clock] u
      g [of "''u1''" taken_ids]
    have "snd (create_player_endpoint store0 ''u1'' ''Dave'' taken_ids clock) = store0"
      by simp
    with f show ?thesis by (metis prod.collapse)
  qed
  ultimately show ?thesis
    using r u t by (metis prod.collapse)
qed

section \<open>The example stores\<close>

lemma registered_eq:
  "registered =
     \<lparr>users = [\<lparr>u_user_id = ''u1'', u_login_type = ''anonymous'', u_created_at = 10\<rparr>],
      player_profiles = [\<lparr>p_player_id = ''id'', p_user_id = ''u1'', p_display_name = ''Alice'',
                          p_created_at = 11\<rparr>],
      games = [], game_results = []\<rparr>"
  by (simp add: registered_def create_player_endpoint_eq empty_store_def user_exists_def
      player_exists_def anonymous_user_def new_profile_def ids_def clock_def Let_def)







section \<open>Player statistics\<close>











lemma player_stats_no_results:
  "player_stats_endpoint replayed ''p-carol'' =
     (Inr \<lparr>s_player_id = ''p-carol'', s_display_name = ''Carol'', s_games_played = 0,
           s_wins = 0, s_total_points = 0, s_avg_score = 0, s_total_farkles = 0,
           s_high_score = 0\<rparr>, replayed)"
  by (simp add: player_stats_endpoint_def get_db_def get_player_stats_def db_close_def
      SessionLocal_def db_get_PlayerProfile_def player_results_def func_count_def func_sum_def
      func_avg_def func_max_def or_0_def Let_def seeded_defs)

lemma player_stats_unknown:
  "\<not> player_exists st player_id \<Longrightarrow>
   player_stats_endpoint st player_id = (Inl (HTTPException 404 ''Player not found''), st)"
  by (simp add: player_stats_endpoint_def get_db_def get_player_stats_def db_close_def
      SessionLocal_def db_get_PlayerProfile_def find_player_exists [symmetric])

section \<open>Player summaries\<close>














text \<open>The list itself, in the order of the player ids.\<close>

lemma user_players_seeded:
  "user_players_endpoint seeded ''u1'' =
     (Inr [\<lparr>i_player_id = ''p-alice'', i_display_name = ''Alice'', i_wins = 1,
            i_avg_score = 9800, i_total_points = 9800\<rparr>,
           \<lparr>i_player_id = ''p-bob'', i_display_name = ''Bob'', i_wins = 0,
            i_avg_score = 8700, i_total_points = 8700\<rparr>,
           \<lparr>i_player_id = ''p-carol'', i_display_name = ''Carol'', i_wins = 0,
            i_avg_score = 0, i_total_points = 0\<rparr>], seeded)"
  by (simp add: user_players_endpoint_def get_db_def get_user_players_def db_close_def
      SessionLocal_def db_get_User_def user_players_query_def aggregate_def func_sum_def
      func_avg_def to_entry_def or_0_def player_results_def cast_Integer_def int64_def Let_def
      seeded_defs)


section \<open>The leaderboard\<close>

























section \<open>Results per game and player\<close>

lemma duplicated_eq:
  "post_game_result_endpoint registered ''u1'' None duplicate_entries ids 2 =
     (Inr ''id'',
      registered\<lparr>games := [\<lparr>g_game_id = ''id'', g_user_id = ''u1'', g_played_at = 2\<rparr>],
        game_results :=
          [\<lparr>r_result_id = ''id+'', r_game_id = ''id'', r_player_id = Some ''id'',
            r_score = 500, r_turns_taken = 3, r_farkles = 1, r_won = True\<rparr>,
           \<lparr>r_result_id = ''id++'', r_game_id = ''id'', r_player_id = Some ''id'',
            r_score = 700, r_turns_taken = 4, r_farkles = 2, r_won = True\<rparr>]\<rparr>)"
  by (simp add: eval_defs registered_eq duplicate_entries_def ids_def)

text \<open>
  C4. The specification has no accepted submission leave two result rows with one game
  id and one non-null player id. A submission that names the registered player twice is
  accepted and leaves two such rows.
\<close>

theorem C4_counterexample:
  "fst (create_player_endpoint empty_store ''u1'' ''Alice'' ids clock) = Inr ''id'' \<and>
   fst (post_game_result_endpoint registered ''u1'' None duplicate_entries ids 2) = Inr ''id'' \<and>
   map (\<lambda>r. (r_game_id r, r_player_id r)) (game_results duplicated) =
     [(''id'', Some ''id''), (''id'', Some ''id'')] \<and>
   \<not> one_result_per_player duplicated"
proof -
  have "fst (create_player_endpoint empty_store ''u1'' ''Alice'' ids clock) = Inr ''id''"
    by (simp add: create_player_endpoint_eq empty_store_def user_exists_def
        player_exists_def ids_def Let_def)
  then show ?thesis
    by (simp add: duplicated_def duplicated_eq one_result_per_player_def game_rows_def)
qed

lemma create_player_endpoint_games:
  "games (snd (create_player_endpoint st uid name u now)) = games st"
  "game_results (snd (create_player_endpoint st uid name u now)) = game_results st"
  by (simp_all add: create_player_endpoint_eq Let_def)

text \<open>A submission either leaves the store alone or appends its game and its rows.\<close>

lemma post_game_result_endpoint_cases:
  "snd (post_game_result_endpoint st uid pa rs u now) = st \<or>
   u 0 \<notin> set (map g_game_id (games st)) \<and>
   snd (post_game_result_endpoint st uid pa rs u now) =
     st\<lparr>games := games st @ [game_row uid pa u now],
        game_results := game_results st @ result_rows (u 0) u 1 rs\<rparr>"
proof (cases "fst (post_game_result_endpoint st uid pa rs u now)")
  case (Inl e)
  then have "post_game_result_endpoint st uid pa rs u now =
      (Inl e, snd (post_game_result_endpoint st uid pa rs u now))"
    by (metis prod.collapse)
  from post_game_result_raises_unchanged [OF this] show ?thesis by simp
next
  case (Inr gid)
  have ue: "user_exists st uid"
  proof (rule ccontr)
    assume "\<not> user_exists st uid"
    then have "fst (post_game_result_endpoint st uid pa rs u now) =
        Inl (HTTPException 404 ''User not found'')"
      by (simp add: post_game_result_endpoint_no_user)
    with Inr show False by simp
  qed
  let ?db1 = "db_add (SessionLocal st) (GameObj (game_row uid pa u now))"
  obtain r db2 where ar: "add_results ?db1 (u 0) u 1 rs = (r, db2)"
    by (cases "add_results ?db1 (u 0) u 1 rs")
  with Inr obtain x where r: "r = Inr x"
    by (cases r) (simp_all add: post_game_result_endpoint_user [OF ue])
  from add_results_Inr [OF ar [unfolded r]] have
    "\<forall>res \<in> set rs. readable res \<and> player_exists (committed ?db1) (e_player_id (entry_of res))" .
  from add_results_accepted [OF this, of "u 0" u 1] ar have
    db2: "db2 = \<lparr>committed = st, pending =
            GameObj (game_row uid pa u now) # map GameResultObj (result_rows (u 0) u 1 rs)\<rparr>"
    by (simp add: db_add_def SessionLocal_def)
  have eq: "post_game_result_endpoint st uid pa rs u now =
      (case db_commit db2 of Inl e \<Rightarrow> (Inl e, st) | Inr db3 \<Rightarrow> (Inr (u 0), committed db3))"
    unfolding post_game_result_endpoint_user [OF ue] ar r by simp
  from Inr have "u 0 \<notin> set (map g_game_id (games st)) \<and>
      snd (post_game_result_endpoint st uid pa rs u now) =
        st\<lparr>games := games st @ [game_row uid pa u now],
           game_results := game_results st @ result_rows (u 0) u 1 rs\<rparr>"
    unfolding eq db2 db_commit_game
    by (simp add: game_row_def split: if_splits)
  then show ?thesis by simp
qed

text \<open>The invariant carried along the reachable stores.\<close>

lemma invariant_submission:
  assumes "results_have_games st" and "one_result_per_player st"
    and "gid \<notin> set (map g_game_id (games st))" and "g_game_id g = gid"
    and "\<forall>r \<in> set rows. r_game_id r = gid"
    and "distinct (filter (\<lambda>x. x \<noteq> None) (map r_player_id rows))"
  shows "results_have_games (st\<lparr>games := games st @ [g], game_results := game_results st @ rows\<rparr>) \<and>
         one_result_per_player (st\<lparr>games := games st @ [g], game_results := game_results st @ rows\<rparr>)"
proof -
  let ?st' = "st\<lparr>games := games st @ [g], game_results := game_results st @ rows\<rparr>"
  have new: "filter (\<lambda>r. r_game_id r = gid) rows = rows"
    using assms(5) by (simp add: filter_id_conv)
  have old: "filter (\<lambda>r. r_game_id r = gid) (game_results st) = []"
    using assms(1,3) by (auto simp: results_have_games_def filter_empty_conv)
  have other: "filter (\<lambda>r. r_game_id r = gid') rows = []" if "gid' \<noteq> gid" for gid'
    using assms(5) that by (auto simp: filter_empty_conv)
  have 1: "results_have_games ?st'"
    using assms(1,4,5) by (auto simp: results_have_games_def)
  have 2: "distinct (filter (\<lambda>x. x \<noteq> None) (map r_player_id (game_rows ?st' (g_game_id g'))))"
    if "g' \<in> set (games ?st')" for g'
  proof (cases "g_game_id g' = gid")
    case True
    then show ?thesis
      using assms(6) by (simp add: game_rows_def new old)
  next
    case False
    with that assms(4) have "g' \<in> set (games st)" by auto
    with assms(2) False show ?thesis
      by (simp add: one_result_per_player_def game_rows_def other)
  qed
  from 1 2 show ?thesis
    by (simp add: one_result_per_player_def)
qed

lemma distinct_Some: "distinct (filter (\<lambda>x. x \<noteq> None) (map Some xs)) = distinct xs"
  by (induction xs) auto

lemma reachable_distinct_invariant:
  "reachable_distinct st \<Longrightarrow> results_have_games st \<and> one_result_per_player st"
proof (induction rule: reachable_distinct.induct)
  case rd_empty
  show ?case
    by (simp add: results_have_games_def one_result_per_player_def empty_store_def)
next
  case (rd_player st user_id display_name uuid4 utcnow)
  then show ?case
    by (simp add: results_have_games_def one_result_per_player_def game_rows_def
        create_player_endpoint_games)
next
  case (rd_game st results user_id played_at uuid4 utcnow)
  let ?st' = "snd (post_game_result_endpoint st user_id played_at results uuid4 utcnow)"
  from post_game_result_endpoint_cases [of st user_id played_at results uuid4 utcnow]
  show ?case
  proof
    assume "?st' = st"
    with rd_game.IH show ?thesis by simp
  next
    assume a: "uuid4 0 \<notin> set (map g_game_id (games st)) \<and>
      ?st' = st\<lparr>games := games st @ [game_row user_id played_at uuid4 utcnow],
                game_results := game_results st @ result_rows (uuid4 0) uuid4 1 results\<rparr>"
    have g: "\<forall>r \<in> set (result_rows (uuid4 0) uuid4 1 results). r_game_id r = uuid4 0"
      using map_game_id_result_rows [of "uuid4 0" uuid4 1 results]
      by (metis (no_types, lifting) in_set_replicate list.set_map imageI)
    have "map r_player_id (result_rows (uuid4 0) uuid4 1 results) =
            map Some (map (\<lambda>res. e_player_id (entry_of res)) results)"
      by (simp add: map_player_id_result_rows comp_def)
    with rd_game.hyps(2)
    have d: "distinct (filter (\<lambda>x. x \<noteq> None)
               (map r_player_id (result_rows (uuid4 0) uuid4 1 results)))"
      by (simp only: distinct_Some)
    from invariant_submission [OF _ _ _ _ g d, of st "game_row user_id played_at uuid4 utcnow"]
         rd_game.IH a
    show ?thesis
      by (simp add: game_row_def)
  qed
qed

text \<open>
  C4, as the code has it. After every sequence of write requests whose submissions each
  name pairwise distinct player ids, every game's result rows hold at most one row per
  non-null player id.
\<close>

theorem C4_one_result_per_player:
  "reachable_distinct st \<Longrightarrow> one_result_per_player st"
  by (simp add: reachable_distinct_invariant)

lemma registered_two_eq:
  "registered_two =
     registered\<lparr>player_profiles := player_profiles registered @
       [\<lparr>p_player_id = ''id+++'', p_user_id = ''u1'', p_display_name = ''Bob'',
         p_created_at = 10\<rparr>]\<rparr>"
  by (simp add: registered_two_def create_player_endpoint_eq registered_eq user_exists_def
      player_exists_def new_profile_def later_ids_def clock_def Let_def)

lemma played_two_eq:
  "post_game_result_endpoint registered_two ''u1'' None two_entries ids 2 =
     (Inr ''id'',
      registered_two\<lparr>games := [\<lparr>g_game_id = ''id'', g_user_id = ''u1'', g_played_at = 2\<rparr>],
        game_results :=
          [\<lparr>r_result_id = ''id+'', r_game_id = ''id'', r_player_id = Some ''id'',
            r_score = 500, r_turns_taken = 3, r_farkles = 1, r_won = True\<rparr>,
           \<lparr>r_result_id = ''id++'', r_game_id = ''id'', r_player_id = Some ''id+++'',
            r_score = 300, r_turns_taken = 3, r_farkles = 2, r_won = True\<rparr>]\<rparr>)"
  by (simp add: eval_defs registered_two_eq registered_eq two_entries_def ids_def)

theorem C4_witness:
  "reachable_distinct played_two \<and>
   fst (post_game_result_endpoint registered_two ''u1'' None two_entries ids 2) = Inr ''id'' \<and>
   map (\<lambda>r. (r_game_id r, r_player_id r)) (game_results played_two) =
     [(''id'', Some ''id''), (''id'', Some ''id+++'')] \<and>
   one_result_per_player played_two"
proof -
  have "reachable_distinct registered"
    unfolding registered_def by (rule rd_player [OF rd_empty])
  then have "reachable_distinct registered_two"
    unfolding registered_two_def by (rule rd_player)
  then have r: "reachable_distinct played_two"
    unfolding played_two_def by (rule rd_game) (simp add: two_entries_def)
  with C4_one_result_per_player [OF r] show ?thesis
    by (simp add: played_two_def played_two_eq)
qed

end
